theory Spec2Isabelle
  imports Complex_Main "HOL-Library.Sublist"
begin

section \<open>Common data\<close>

text \<open>
  The client is TypeScript running in a browser.  JavaScript numbers are IEEE doubles; a
  finite double is taken as the real it denotes.  Where the code subtracts (the duration
  check of the home page) the model rounds as doubles do; comparing, copying and taking a
  minimum are exact.  A browser
  \<^verbatim>\<open>File\<close> is known to the code only through its declared name, size and type.
  A nullable value (\<^verbatim>\<open>T | null\<close>, \<^verbatim>\<open>T | undefined\<close>) is an option.
\<close>

record file_handle =
  file_name :: string
  file_size :: nat
  file_type :: string

definition startsWith :: "string \<Rightarrow> string \<Rightarrow> bool" where
  "startsWith s p = (take (length p) s = p)"

section \<open>File intake: components/FileUpload.tsx\<close>

text \<open>
  The component has two entry points, \<^verbatim>\<open>handleDrop\<close> (drag and drop) and
  \<^verbatim>\<open>handleFileInput\<close> (the file picker).  Their observable effects are a call of the
  \<^verbatim>\<open>onFileSelect\<close> prop and a browser \<^verbatim>\<open>alert\<close>.  The \<^verbatim>\<open>accept\<close> prop is only
  handed to the \<^verbatim>\<open>input\<close> element as an attribute; no handler reads it.
\<close>

datatype intake_effect = OnFileSelect file_handle | Alert string

definition default_maxSize :: nat where
  "default_maxSize = 50 * 1024 * 1024"

definition too_large_message :: string where
  "too_large_message = ''File is too large. Maximum size is 50MB.''"

text \<open>
  \<^verbatim>\<open>handleDrop\<close>: the argument is \<^verbatim>\<open>e.dataTransfer.files\<close>; \<^verbatim>\<open>files[0]\<close> of an empty
  list is undefined.  The result is the new value of \<^verbatim>\<open>isDragging\<close> and the effects.
\<close>

definition handleDrop :: "nat \<Rightarrow> file_handle list \<Rightarrow> bool \<times> intake_effect list" where
  "handleDrop maxSize files =
     (False,
      (case files of
         [] \<Rightarrow> []
       | file # _ \<Rightarrow>
           if startsWith (file_type file) ''audio/'' then
             (if file_size file \<le> maxSize then [OnFileSelect file]
              else [Alert too_large_message])
           else []))"

text \<open>
  \<^verbatim>\<open>handleFileInput\<close>: the argument is \<^verbatim>\<open>e.target.files\<close>, which may be null.
\<close>

definition handleFileInput :: "nat \<Rightarrow> file_handle list option \<Rightarrow> intake_effect list" where
  "handleFileInput maxSize files =
     (case files of
        None \<Rightarrow> []
      | Some [] \<Rightarrow> []
      | Some (file # _) \<Rightarrow>
          if file_size file \<le> maxSize then [OnFileSelect file]
          else [Alert too_large_message])"

section \<open>JSON values and the JavaScript conversions the code relies on\<close>

text \<open>
  A parsed JSON document.  An object keeps its members in document order; when a key is
  repeated, \<^verbatim>\<open>JSON.parse\<close> keeps the last member.  The value \<^verbatim>\<open>undefined\<close> is
  \<open>None\<close> of \<open>json option\<close>.
\<close>

datatype json =
    JNull
  | JBool bool
  | JNum real
  | JStr string
  | JArr "json list"
  | JObj "(string \<times> json) list"

text \<open>Truthiness, as \<^verbatim>\<open>if (v)\<close>, \<^verbatim>\<open>!v\<close> and \<^verbatim>\<open>v || d\<close> test it.\<close>

fun js_truthy :: "json \<Rightarrow> bool" where
  "js_truthy JNull = False"
| "js_truthy (JBool b) = b"
| "js_truthy (JNum r) = (r \<noteq> 0)"
| "js_truthy (JStr s) = (s \<noteq> [])"
| "js_truthy (JArr xs) = True"
| "js_truthy (JObj kvs) = True"

definition truthy :: "json option \<Rightarrow> bool" where
  "truthy v = (case v of None \<Rightarrow> False | Some j \<Rightarrow> js_truthy j)"

text \<open>
  Reading a member \<^verbatim>\<open>v.k\<close> of a value that is neither null nor undefined, for the
  member names the code reads (none of them is inherited from a prototype): an object gives
  its member, every other value gives undefined.
\<close>

fun get_prop :: "json \<Rightarrow> string \<Rightarrow> json option" where
  "get_prop (JObj kvs) k = map_of (rev kvs) k"
| "get_prop v k = None"



definition digit_char :: "nat \<Rightarrow> char" where
  "digit_char d = ''0123456789'' ! d"

fun nat_to_dec :: "nat \<Rightarrow> string" where
  "nat_to_dec n =
     (if n < 10 then [digit_char n] else nat_to_dec (n div 10) @ [digit_char (n mod 10)])"

declare nat_to_dec.simps [simp del]

text \<open>
  \<^verbatim>\<open>Number::toString\<close> on a non-negative integer below \<open>10^21\<close> prints its decimal
  digits; this instance of the parameter is used where a concrete run is evaluated.
\<close>

definition integer_toString :: "real \<Rightarrow> string" where
  "integer_toString r = nat_to_dec (nat \<lfloor>r\<rfloor>)"

text \<open>
  \<^verbatim>\<open>x.toFixed(1)\<close> after ECMA-262: the sign, then for \<open>x \<ge> 10^21\<close> the plain string
  conversion, and otherwise the integer \<open>n\<close> with \<open>n / 10\<close> nearest to \<open>x\<close> (the larger
  one on a tie), printed with a point before its last digit.
\<close>

definition toFixed1 :: "(real \<Rightarrow> string) \<Rightarrow> real \<Rightarrow> string" where
  "toFixed1 numToString x =
     (let s = (if x < 0 then ''-'' else []);
          y = \<bar>x\<bar>
      in if 10 ^ 21 \<le> y then s @ numToString y
         else (let n = nat \<lfloor>y * 10 + 1 / 2\<rfloor>
               in s @ nat_to_dec (n div 10) @ ''.'' @ [digit_char (n mod 10)]))"

section \<open>Waveform and region selector: components/WaveformPlayer.tsx\<close>

text \<open>The options object handed to \<^verbatim>\<open>regions.addRegion\<close>.\<close>

record region_params =
  region_start :: real
  region_end :: real
  color :: string
  drag :: bool
  resize :: bool

datatype waveform_effect = AddRegion region_params | OnRegionUpdate real real

text \<open>
  The \<^verbatim>\<open>ready\<close> listener registered when \<^verbatim>\<open>enableRegionSelect\<close> is set.  The prop
  \<^verbatim>\<open>fixedDuration\<close> is an optional number, tested for truthiness (\<^verbatim>\<open>fixedDuration || ...\<close>
  and \<^verbatim>\<open>fixedDuration ? false : true\<close>); \<open>duration\<close> is \<^verbatim>\<open>ws.getDuration()\<close>.
  \<open>ready_region\<close> is the argument of \<^verbatim>\<open>addRegion\<close>.
\<close>

definition fixed_requested :: "real option \<Rightarrow> bool" where
  "fixed_requested fixedDuration =
     (case fixedDuration of None \<Rightarrow> False | Some d \<Rightarrow> d \<noteq> 0)"

definition ready_region :: "real option \<Rightarrow> real \<Rightarrow> region_params" where
  "ready_region fixedDuration duration =
     (let regionDuration =
            (case fixedDuration of
               None \<Rightarrow> min 60 duration
             | Some d \<Rightarrow> if d \<noteq> 0 then d else min 60 duration);
          defaultStart = 0;
          defaultEnd = min regionDuration duration
      in \<lparr>region_start = defaultStart, region_end = defaultEnd,
          color = ''hsla(180, 75%, 55%, 0.2)'',
          drag = True,
          resize = (if fixed_requested fixedDuration then False else True)\<rparr>)"

text \<open>
  \<open>has_onRegionUpdate\<close> says whether the optional prop \<^verbatim>\<open>onRegionUpdate\<close> was supplied
  (\<^verbatim>\<open>onRegionUpdate?.(...)\<close> does nothing otherwise).
\<close>

definition on_ready :: "bool \<Rightarrow> real option \<Rightarrow> bool \<Rightarrow> real \<Rightarrow> waveform_effect list" where
  "on_ready enableRegionSelect fixedDuration has_onRegionUpdate duration =
     (if enableRegionSelect then
        (let r = ready_region fixedDuration duration
         in AddRegion r #
            (if has_onRegionUpdate then [OnRegionUpdate (region_start r) (region_end r)]
             else []))
      else [])"

text \<open>The \<^verbatim>\<open>region-updated\<close> listener: it forwards the region's current ends.\<close>

definition on_region_updated :: "bool \<Rightarrow> region_params \<Rightarrow> waveform_effect list" where
  "on_region_updated has_onRegionUpdate region =
     (if has_onRegionUpdate then [OnRegionUpdate (region_start region) (region_end region)]
      else [])"

text \<open>
  Modelled from the spec: the gestures of the region plugin (wavesurfer.js, a dependency whose
  code is not under src/).  The spec says that a region is draggable and resizable, that
  with resizing disabled only translation is possible, and that every manual change is
  reported upward without clamping.  So a drag moves both ends by the same offset when the
  region's \<open>drag\<close> option is set, a resize moves one end when its \<open>resize\<close> option is
  set, and after each gesture the plugin emits \<^verbatim>\<open>region-updated\<close>.
\<close>

datatype gesture = DragBy real | ResizeStartBy real | ResizeEndBy real

fun plugin_gesture :: "region_params \<Rightarrow> gesture \<Rightarrow> region_params" where
  "plugin_gesture r (DragBy d) =
     (if drag r then r\<lparr>region_start := region_start r + d, region_end := region_end r + d\<rparr>
      else r)"
| "plugin_gesture r (ResizeStartBy d) =
     (if resize r then r\<lparr>region_start := region_start r + d\<rparr> else r)"
| "plugin_gesture r (ResizeEndBy d) =
     (if resize r then r\<lparr>region_end := region_end r + d\<rparr> else r)"

fun gesture_reports :: "bool \<Rightarrow> region_params \<Rightarrow> gesture list \<Rightarrow> waveform_effect list" where
  "gesture_reports cb r [] = []"
| "gesture_reports cb r (g # gs) =
     on_region_updated cb (plugin_gesture r g) @ gesture_reports cb (plugin_gesture r g) gs"

section \<open>Effects of the page handlers\<close>

text \<open>
  What a page handler does besides updating its component state: notifications, the calls of
  the API client (each of them one \<^verbatim>\<open>apiRequest\<close>, hence one \<^verbatim>\<open>fetch\<close>), the writes of
  the \<^verbatim>\<open>currentSegment\<close> entry of local storage, and navigation.  Identifiers assigned by
  the backend are natural numbers.
\<close>

record segment_info =
  segmentId :: nat
  fileName :: string
  info_startTime :: real
  info_endTime :: real

datatype effect =
    ToastSuccess string
  | ToastError string
  | ConsoleError
  | ApiUploadAndProcess file_handle real real
  | ApiUploadRecording file_handle int "string option" "(real \<times> real) option"
  | ApiAnalyzeRecording int nat
  | RevokeObjectURL string
  | StoreCurrentSegment segment_info
  | RemoveCurrentSegment
  | NavigateRecord segment_info
  | NavigateResults nat

fun is_network_call :: "effect \<Rightarrow> bool" where
  "is_network_call (ApiUploadAndProcess f s e) = True"
| "is_network_call (ApiUploadRecording f i k t) = True"
| "is_network_call (ApiAnalyzeRecording s r) = True"
| "is_network_call x = False"

section \<open>Double-precision arithmetic of the duration check\<close>

text \<open>
  JavaScript numbers are IEEE 754 doubles.  A finite double is taken as the real it denotes.
  \<open>round_double\<close> is rounding to the nearest double, ties to the even significand: in the
  binade of \<open>x\<close> (from \<open>2^e\<close>, with \<open>e\<close> not below the subnormal exponent -1022) doubles
  are the multiples of \<open>2^(e - 52)\<close>.  A rounded magnitude of \<open>2^1024\<close> or more is an
  infinity, which is \<open>None\<close> here.
\<close>

definition pow2 :: "int \<Rightarrow> real" where
  "pow2 k = (if 0 \<le> k then 2 ^ nat k else 1 / 2 ^ nat (- k))"

definition round_half_even :: "real \<Rightarrow> int" where
  "round_half_even q =
     (let f = \<lfloor>q\<rfloor>
      in if q - of_int f < 1 / 2 then f
         else if 1 / 2 < q - of_int f then f + 1
         else if even f then f else f + 1)"

definition double_exponent :: "real \<Rightarrow> int" where
  "double_exponent x = max \<lfloor>log 2 \<bar>x\<bar>\<rfloor> (- 1022)"

definition round_double :: "real \<Rightarrow> real" where
  "round_double x =
     (if x = 0 then 0
      else (let ulp = pow2 (double_exponent x - 52)
            in of_int (round_half_even (x / ulp)) * ulp))"

text \<open>\<^verbatim>\<open>a - b\<close> on finite doubles: the rounded difference, or an infinity.\<close>

definition double_sub :: "real \<Rightarrow> real \<Rightarrow> real option" where
  "double_sub a b =
     (let r = round_double (a - b) in if \<bar>r\<bar> < 2 ^ 1024 then Some r else None)"

text \<open>
  The same on a first operand that may be an infinity; \<^verbatim>\<open>Math.abs\<close>; the comparison
  \<^verbatim>\<open>x <= t\<close> with a finite \<open>t\<close>, false of an infinity once \<^verbatim>\<open>Math.abs\<close> has made it
  positive; and \<^verbatim>\<open>toFixed(1)\<close>, which prints an infinity as \<^verbatim>\<open>Infinity\<close>.
\<close>

definition sub_number :: "real option \<Rightarrow> real \<Rightarrow> real option" where
  "sub_number a b = (case a of None \<Rightarrow> None | Some x \<Rightarrow> double_sub x b)"

definition abs_number :: "real option \<Rightarrow> real option" where
  "abs_number a = (case a of None \<Rightarrow> None | Some x \<Rightarrow> Some \<bar>x\<bar>)"

definition le_number :: "real option \<Rightarrow> real \<Rightarrow> bool" where
  "le_number a t = (case a of None \<Rightarrow> False | Some x \<Rightarrow> x \<le> t)"

definition toFixed1_number :: "(real \<Rightarrow> string) \<Rightarrow> real option \<Rightarrow> string" where
  "toFixed1_number numToString a =
     (case a of None \<Rightarrow> ''Infinity'' | Some x \<Rightarrow> toFixed1 numToString x)"

text \<open>The literal \<^verbatim>\<open>0.1\<close>: the double nearest to one tenth.\<close>

definition double_tenth :: real where
  "double_tenth = 3602879701896397 / 2 ^ 55"

section \<open>Home page: pages/Index.tsx\<close>

record index_state =
  selectedFile :: "file_handle option"
  audioUrl :: string
  selectedDuration :: "real option"
  startTime :: real
  endTime :: real
  isUploading :: bool

definition index_initial :: index_state where
  "index_initial =
     \<lparr>selectedFile = None, audioUrl = [], selectedDuration = None,
      startTime = 0, endTime = 0, isUploading = False\<rparr>"

text \<open>\<open>url\<close> is the object URL that \<^verbatim>\<open>URL.createObjectURL(file)\<close> returns.\<close>

definition handleFileSelect :: "string \<Rightarrow> file_handle \<Rightarrow> index_state \<Rightarrow> index_state \<times> effect list" where
  "handleFileSelect url file st =
     (st\<lparr>selectedFile := Some file, audioUrl := url, selectedDuration := None,
         startTime := 0, endTime := 0\<rparr>,
      [ToastSuccess ''File selected! Now choose a segment duration.''])"

definition handleDurationSelect :: "real \<Rightarrow> index_state \<Rightarrow> index_state" where
  "handleDurationSelect duration st =
     st\<lparr>selectedDuration := Some duration, endTime := duration\<rparr>"

definition handleRegionUpdate :: "real \<Rightarrow> real \<Rightarrow> index_state \<Rightarrow> index_state" where
  "handleRegionUpdate start end st = st\<lparr>startTime := start, endTime := end\<rparr>"

definition duration_message :: "(real \<Rightarrow> string) \<Rightarrow> real \<Rightarrow> string \<Rightarrow> string" where
  "duration_message numToString selected current =
     ''Please ensure the segment is exactly '' @ numToString selected @
     '' seconds (current: '' @ current @ ''s)''"

text \<open>
  \<^verbatim>\<open>handleUpload\<close>.  \<open>response\<close> is the outcome of awaiting
  \<^verbatim>\<open>uploadAPI.uploadAndProcess\<close>: the identifier of the created segment, or \<open>None\<close> when
  the call throws.  The result is the state when the handler has finished (\<^verbatim>\<open>isUploading\<close>
  is true only while the call is awaited) and the effects in order.  The guard
  \<^verbatim>\<open>!selectedDuration\<close> holds of null and of 0.  The times of the state are finite
  doubles; the two subtractions round as doubles do, and the tolerance is the double
  \<^verbatim>\<open>0.1\<close>.
\<close>

definition handleUpload :: "(real \<Rightarrow> string) \<Rightarrow> index_state \<Rightarrow> nat option \<Rightarrow> index_state \<times> effect list" where
  "handleUpload numToString st response =
     (case selectedFile st of
        None \<Rightarrow> (st, [])
      | Some file \<Rightarrow>
          (case selectedDuration st of
             None \<Rightarrow> (st, [])
           | Some selected \<Rightarrow>
               if selected = 0 then (st, [])
               else
                 (let actualDuration = abs_number (double_sub (endTime st) (startTime st));
                      tolerance = double_tenth;
                      isDurationValid =
                        le_number (abs_number (sub_number actualDuration selected)) tolerance
                  in if \<not> isDurationValid then
                       (st, [ToastError
                               (duration_message numToString selected
                                  (toFixed1_number numToString actualDuration))])
                     else
                       (case response of
                          Some rid \<Rightarrow>
                            (let segmentInfo =
                                   \<lparr>segmentId = rid, fileName = file_name file,
                                    info_startTime = startTime st, info_endTime = endTime st\<rparr>
                             in (st\<lparr>isUploading := False\<rparr>,
                                 [ApiUploadAndProcess file (startTime st) (endTime st),
                                  ToastSuccess ''Song uploaded and processed!'',
                                  RevokeObjectURL (audioUrl st),
                                  StoreCurrentSegment segmentInfo,
                                  NavigateRecord segmentInfo]))
                        | None \<Rightarrow>
                            (st\<lparr>isUploading := False\<rparr>,
                             [ApiUploadAndProcess file (startTime st) (endTime st),
                              ToastError ''Upload failed. Please try again.'',
                              ConsoleError])))))"

section \<open>Record page: pages/Record.tsx and its later revision with an upload mode\<close>

text \<open>A \<^verbatim>\<open>Blob\<close>: its bytes and its declared type.\<close>

record blob =
  blob_data :: "nat list"
  blob_type :: string

text \<open>\<^verbatim>\<open>new File([b], name, {type})\<close> seen through its declared name, size and type.\<close>

definition new_File :: "nat \<Rightarrow> string \<Rightarrow> string \<Rightarrow> file_handle" where
  "new_File n name ty = \<lparr>file_name = name, file_size = n, file_type = ty\<rparr>"

datatype js_error = TypeError | SyntaxError | Error string

text \<open>
  \<^verbatim>\<open>getSegmentInfo\<close> (the same in both revisions): \<^verbatim>\<open>location.state\<close> when it has a
  truthy \<^verbatim>\<open>segmentId\<close>, otherwise the parsed \<^verbatim>\<open>currentSegment\<close> entry of local
  storage, otherwise the empty object.  \<open>JSON_parse\<close> is the platform's parser; \<open>None\<close>
  is its SyntaxError, which the function catches.
\<close>

definition getSegmentInfo ::
  "(string \<Rightarrow> json option) \<Rightarrow> json option \<Rightarrow> (string \<rightharpoonup> string) \<Rightarrow> json" where
  "getSegmentInfo JSON_parse location_state storage =
     (let fallback =
            (case storage ''currentSegment'' of
               None \<Rightarrow> JObj []
             | Some stored \<Rightarrow>
                 if stored = [] then JObj []
                 else (case JSON_parse stored of None \<Rightarrow> JObj [] | Some v \<Rightarrow> v))
      in case location_state of
           None \<Rightarrow> fallback
         | Some s \<Rightarrow> if truthy (get_prop s ''segmentId'') then s else fallback)"

text \<open>
  The destructuring \<^verbatim>\<open>const { segmentId, fileName, startTime, endTime } = segmentInfo\<close>;
  it throws on null.
\<close>

definition segment_identity ::
  "json \<Rightarrow> js_error + (json option \<times> json option \<times> json option \<times> json option)" where
  "segment_identity info =
     (if info = JNull then Inl TypeError
      else Inr (get_prop info ''segmentId'', get_prop info ''fileName'',
                get_prop info ''startTime'', get_prop info ''endTime''))"

text \<open>
  First revision (pages/Record.tsx): recording only.  \<open>usr\<close> is the \<^verbatim>\<open>user\<close> of the
  auth context (null is \<open>None\<close>), tested by \<^verbatim>\<open>!user\<close>.  \<open>segmentIdNum\<close> is the value of
  \<^verbatim>\<open>parseInt(segmentId.toString())\<close>, \<open>None\<close> when it is NaN or when \<^verbatim>\<open>segmentId\<close> is
  undefined (both end in the \<^verbatim>\<open>catch\<close> block).  \<open>uploaded\<close> and \<open>analysed\<close> are the
  outcomes of the two awaited calls: the identifier returned, or \<open>None\<close> when the call
  throws.
\<close>

record record_state_v1 =
  v1_recordedBlob :: "blob option"
  v1_isAnalyzing :: bool
  v1_showLoginDialog :: bool

definition analysis_failed :: "effect list" where
  "analysis_failed = [ToastError ''Failed to analyze recording'', ConsoleError]"

definition submit_calls ::
  "file_handle \<Rightarrow> int option \<Rightarrow> string option \<Rightarrow> (real \<times> real) option \<Rightarrow>
   nat option \<Rightarrow> nat option \<Rightarrow> effect list" where
  "submit_calls audioFile segmentIdNum kind timing uploaded analysed =
     (case segmentIdNum of
        None \<Rightarrow> analysis_failed
      | Some sid \<Rightarrow>
          (case uploaded of
             None \<Rightarrow> ApiUploadRecording audioFile sid kind timing # analysis_failed
           | Some rid \<Rightarrow>
               (case analysed of
                  None \<Rightarrow>
                    [ApiUploadRecording audioFile sid kind timing, ApiAnalyzeRecording sid rid]
                    @ analysis_failed
                | Some aid \<Rightarrow>
                    [ApiUploadRecording audioFile sid kind timing, ApiAnalyzeRecording sid rid,
                     RemoveCurrentSegment, ToastSuccess ''Analysis complete!'',
                     NavigateResults aid])))"

definition handleSubmitAnalysis_v1 ::
  "json option \<Rightarrow> int option \<Rightarrow> nat option \<Rightarrow> nat option \<Rightarrow> record_state_v1 \<Rightarrow>
   record_state_v1 \<times> effect list" where
  "handleSubmitAnalysis_v1 usr segmentIdNum uploaded analysed st =
     (if \<not> truthy usr then (st\<lparr>v1_showLoginDialog := True\<rparr>, [])
      else
          (case v1_recordedBlob st of
             None \<Rightarrow> (st, [ToastError ''Please record your singing first''])
           | Some b \<Rightarrow>
               (st\<lparr>v1_isAnalyzing := False\<rparr>,
                submit_calls (new_File (length (blob_data b)) ''recording.webm'' ''audio/webm'')
                  segmentIdNum None None uploaded analysed)))"

text \<open>Later revision: a record mode and an upload mode.\<close>

datatype record_mode = RecordMode | UploadMode

record record_state =
  mode :: record_mode
  recordedBlob :: "blob option"
  uploadedFile :: "file_handle option"
  rec_audioUrl :: "string option"
  rec_selectedDuration :: real
  segmentStart :: real
  segmentEnd :: real
  isAnalyzing :: bool
  showLoginDialog :: bool

definition record_initial :: record_state where
  "record_initial =
     \<lparr>mode = RecordMode, recordedBlob = None, uploadedFile = None, rec_audioUrl = None,
      rec_selectedDuration = 30, segmentStart = 0, segmentEnd = 30,
      isAnalyzing = False, showLoginDialog = False\<rparr>"

text \<open>The two buttons of the mode toggle call \<^verbatim>\<open>setMode('record')\<close> and \<^verbatim>\<open>setMode('upload')\<close>.\<close>

definition setMode :: "record_mode \<Rightarrow> record_state \<Rightarrow> record_state" where
  "setMode m st = st\<lparr>mode := m\<rparr>"

definition handleRecordingComplete :: "blob \<Rightarrow> record_state \<Rightarrow> record_state" where
  "handleRecordingComplete b st = st\<lparr>recordedBlob := Some b\<rparr>"

definition handleFileSelect_rec :: "string \<Rightarrow> file_handle \<Rightarrow> record_state \<Rightarrow> record_state" where
  "handleFileSelect_rec url file st =
     st\<lparr>uploadedFile := Some file, rec_audioUrl := Some url,
        segmentStart := 0, segmentEnd := rec_selectedDuration st\<rparr>"

definition handleDurationSelect_rec :: "real \<Rightarrow> record_state \<Rightarrow> record_state" where
  "handleDurationSelect_rec duration st =
     st\<lparr>rec_selectedDuration := duration, segmentStart := 0, segmentEnd := duration\<rparr>"

definition handleRegionUpdate_rec :: "real \<Rightarrow> real \<Rightarrow> record_state \<Rightarrow> record_state" where
  "handleRegionUpdate_rec start end st = st\<lparr>segmentStart := start, segmentEnd := end\<rparr>"

definition handleSubmitAnalysis ::
  "json option \<Rightarrow> int option \<Rightarrow> nat option \<Rightarrow> nat option \<Rightarrow> record_state \<Rightarrow>
   record_state \<times> effect list" where
  "handleSubmitAnalysis usr segmentIdNum uploaded analysed st =
     (if \<not> truthy usr then (st\<lparr>showLoginDialog := True\<rparr>, [])
      else
          (case mode st of
             RecordMode \<Rightarrow>
               (case recordedBlob st of
                  None \<Rightarrow> (st, [ToastError ''Please record your singing first''])
                | Some b \<Rightarrow>
                    (st\<lparr>isAnalyzing := False\<rparr>,
                     submit_calls
                       (new_File (length (blob_data b)) ''recording.webm'' ''audio/webm'')
                       segmentIdNum (Some ''recording'') None uploaded analysed))
           | UploadMode \<Rightarrow>
               (case uploadedFile st of
                  None \<Rightarrow> (st, [ToastError ''Please upload an audio file first''])
                | Some f \<Rightarrow>
                    (st\<lparr>isAnalyzing := False\<rparr>,
                     submit_calls (new_File (file_size f) (file_name f) (file_type f))
                       segmentIdNum (Some ''recording'')
                       (Some (segmentStart st, segmentEnd st)) uploaded analysed))))"

text \<open>
  The page as a whole: its component state, the router's \<^verbatim>\<open>location.state\<close> and local
  storage.  The segment shown and submitted is recomputed from the last two on every render.
  The two modes render different children: in upload mode, once a file and its object URL
  are held, the page renders a \<^verbatim>\<open>WaveformPlayer\<close> with region selection enabled, the
  page's \<^verbatim>\<open>handleRegionUpdate\<close> as callback and the selected duration as fixed duration.
  \<open>player_loading\<close> says that such a player has been mounted and has not yet reported
  \<^verbatim>\<open>ready\<close>.
\<close>

record record_page =
  page_state :: record_state
  player_loading :: bool
  location_state :: "json option"
  localStorage :: "string \<rightharpoonup> string"

definition upload_player_rendered :: "record_state \<Rightarrow> bool" where
  "upload_player_rendered st =
     (mode st = UploadMode \<and> uploadedFile st \<noteq> None \<and>
      (case rec_audioUrl st of None \<Rightarrow> False | Some u \<Rightarrow> u \<noteq> []))"

text \<open>
  A click on a button of the mode toggle.  Setting the mode it already has changes nothing
  and renders nothing.  Otherwise the page renders the other mode's children: leaving
  upload mode unmounts the player, entering it mounts a new one, which starts loading.
\<close>

definition click_mode :: "record_mode \<Rightarrow> record_page \<Rightarrow> record_page" where
  "click_mode m page =
     (if mode (page_state page) = m then page
      else page\<lparr>page_state := setMode m (page_state page),
                player_loading := upload_player_rendered (setMode m (page_state page))\<rparr>)"

text \<open>The page's callback applied to what a player reports.\<close>

fun report_regions :: "waveform_effect list \<Rightarrow> record_state \<Rightarrow> record_state" where
  "report_regions [] st = st"
| "report_regions (AddRegion r # fx) st = report_regions fx st"
| "report_regions (OnRegionUpdate s e # fx) st = report_regions fx (handleRegionUpdate_rec s e st)"

text \<open>
  The \<^verbatim>\<open>ready\<close> event of the mounted player, for a track of the given duration: its
  listener seeds the region and reports it to the page.
\<close>

definition player_ready :: "real \<Rightarrow> record_page \<Rightarrow> record_page" where
  "player_ready duration page =
     (if player_loading page then
        page\<lparr>page_state :=
               report_regions
                 (on_ready True (Some (rec_selectedDuration (page_state page))) True duration)
                 (page_state page),
             player_loading := False\<rparr>
      else page)"

definition page_segment ::
  "(string \<Rightarrow> json option) \<Rightarrow> record_page \<Rightarrow>
   js_error + (json option \<times> json option \<times> json option \<times> json option)" where
  "page_segment JSON_parse page =
     segment_identity (getSegmentInfo JSON_parse (location_state page) (localStorage page))"

section \<open>Session store: contexts/AuthContext.tsx\<close>

text \<open>
  The provider's state.  \<^verbatim>\<open>user\<close> holds whatever \<^verbatim>\<open>JSON.parse\<close> returned (JSON
  \<^verbatim>\<open>null\<close> is the null user); \<^verbatim>\<open>isLoading\<close> starts as true.
\<close>

record auth_state =
  auth_user :: "json option"
  auth_token :: "string option"
  isLoading :: bool

definition auth_initial :: auth_state where
  "auth_initial = \<lparr>auth_user = None, auth_token = None, isLoading = True\<rparr>"

definition nullable :: "json \<Rightarrow> json option" where
  "nullable v = (if v = JNull then None else Some v)"

text \<open>
  The mount effect of \<^verbatim>\<open>AuthProvider\<close>.  It reads the two entries; when both are truthy
  (present and not the empty string) it parses the user entry inside \<^verbatim>\<open>try\<close>, and the
  \<^verbatim>\<open>catch\<close> block logs and removes both entries.  \<open>JSON_parse\<close> is the platform's
  parser, \<open>None\<close> its SyntaxError.  The result is the provider's state, local storage and
  the effects; the function has no path on which an exception leaves it.
\<close>

definition rehydrate ::
  "(string \<Rightarrow> json option) \<Rightarrow> (string \<rightharpoonup> string) \<Rightarrow> auth_state \<Rightarrow>
   auth_state \<times> (string \<rightharpoonup> string) \<times> effect list" where
  "rehydrate JSON_parse storage st =
     (let untouched = (st\<lparr>isLoading := False\<rparr>, storage, [])
      in case storage ''token'' of
           None \<Rightarrow> untouched
         | Some storedToken \<Rightarrow>
             (case storage ''user'' of
                None \<Rightarrow> untouched
              | Some storedUser \<Rightarrow>
                  if storedToken \<noteq> [] \<and> storedUser \<noteq> [] then
                    (case JSON_parse storedUser of
                       Some parsedUser \<Rightarrow>
                         (st\<lparr>auth_user := nullable parsedUser,
                             auth_token := Some storedToken, isLoading := False\<rparr>,
                          storage, [])
                     | None \<Rightarrow>
                         (st\<lparr>isLoading := False\<rparr>,
                          storage(''user'' := None, ''token'' := None),
                          [ConsoleError]))
                  else untouched))"

section \<open>API gateway client: services/api.ts\<close>

text \<open>
  The \<^verbatim>\<open>RequestInit\<close> a caller passes, and the one handed to \<^verbatim>\<open>fetch\<close>.  A headers
  object is a map from header names to values; \<^verbatim>\<open>{ A: v, ...h }\<close> is \<open>[A \<mapsto> v] ++ h\<close>,
  and spreading an absent \<^verbatim>\<open>headers\<close> adds nothing.
\<close>

datatype form_field = FileField file_handle | TextField string

datatype request_body = JsonText json | FormData "(string \<times> form_field) list"

record request_options =
  req_method :: "string option"
  req_body :: "request_body option"
  req_headers :: "(string \<rightharpoonup> string) option"

record fetch_call =
  fetch_url :: string
  fetch_method :: "string option"
  fetch_body :: "request_body option"
  fetch_headers :: "string \<rightharpoonup> string"

definition API_BASE_URL :: string where
  "API_BASE_URL = ''https://music-analyser-backend.onrender.com''"

text \<open>The template literal \<^verbatim>\<open>`Bearer ${token}`\<close>; a null token prints as \<^verbatim>\<open>null\<close>.\<close>

definition bearer :: "string option \<Rightarrow> string" where
  "bearer token = ''Bearer '' @ (case token of None \<Rightarrow> ''null'' | Some t \<Rightarrow> t)"

text \<open>
  The call of \<^verbatim>\<open>fetch\<close> that \<^verbatim>\<open>apiRequest(endpoint, options)\<close> makes; \<open>storage\<close> is
  local storage.
\<close>

definition apiRequest_fetch ::
  "(string \<rightharpoonup> string) \<Rightarrow> string \<Rightarrow> request_options \<Rightarrow> fetch_call" where
  "apiRequest_fetch storage endpoint options =
     (let token = storage ''token''
      in \<lparr>fetch_url = API_BASE_URL @ endpoint,
          fetch_method = req_method options,
          fetch_body = req_body options,
          fetch_headers =
            [''Authorization'' \<mapsto> bearer token] ++
            (case req_headers options of None \<Rightarrow> Map.empty | Some h \<Rightarrow> h)\<rparr>)"

text \<open>
  The response as \<^verbatim>\<open>apiRequest\<close> reads it: \<^verbatim>\<open>ok\<close>, \<^verbatim>\<open>status\<close>, \<^verbatim>\<open>statusText\<close> and the
  outcome of \<^verbatim>\<open>response.json()\<close>, \<open>None\<close> when the body is absent or is not JSON.
\<close>

record response =
  ok :: bool
  status :: nat
  statusText :: string
  json_body :: "json option"







text \<open>
  The exported endpoint wrappers, each as the endpoint and the options it passes to
  \<^verbatim>\<open>apiRequest\<close>.  For \<^verbatim>\<open>getUserAttempts\<close> the argument is the query string that
  \<^verbatim>\<open>URLSearchParams\<close> builds from the filters.
\<close>

datatype api_call =
    Login string string
  | Register string string string
  | GetCurrentUser
  | Logout
  | UploadAndProcess file_handle "real option" "real option"
  | GetSupportedFormats
  | CleanupExpiredFiles
  | GetSegments
  | GetSegment string
  | DeleteSegment string
  | AnalyzeRecording string string
  | GetAnalysisSummary string
  | GetUserAttempts string
  | GetAttemptDetails string
  | DeleteAttempt string
  | GetUserStats
  | GetResults string
  | UploadRecording file_handle real
  | GetUserRecordings
  | GetRecordingDetails string
  | HealthCheck
  | GetRootInfo

definition get_request :: request_options where
  "get_request = \<lparr>req_method = None, req_body = None, req_headers = None\<rparr>"

definition json_post :: "json \<Rightarrow> request_options" where
  "json_post v =
     \<lparr>req_method = Some ''POST'', req_body = Some (JsonText v),
      req_headers = Some [''Content-Type'' \<mapsto> ''application/json'']\<rparr>"

definition form_post :: "(string \<times> form_field) list \<Rightarrow> request_options" where
  "form_post parts =
     \<lparr>req_method = Some ''POST'', req_body = Some (FormData parts), req_headers = None\<rparr>"

definition bare_request :: "string \<Rightarrow> request_options" where
  "bare_request m = \<lparr>req_method = Some m, req_body = None, req_headers = None\<rparr>"

fun api_request :: "(real \<Rightarrow> string) \<Rightarrow> api_call \<Rightarrow> string \<times> request_options" where
  "api_request numToString (Login em pw) =
     (''/api/auth/login'', json_post (JObj [(''email'', JStr em), (''password'', JStr pw)]))"
| "api_request numToString (Register em un pw) =
     (''/api/auth/register'',
      json_post (JObj [(''email'', JStr em), (''username'', JStr un), (''password'', JStr pw)]))"
| "api_request numToString GetCurrentUser = (''/api/auth/me'', get_request)"
| "api_request numToString Logout = (''/api/auth/logout'', bare_request ''POST'')"
| "api_request numToString (UploadAndProcess file start end) =
     (''/api/upload-and-process'',
      form_post
        ([(''file'', FileField file)] @
         (case start of None \<Rightarrow> [] | Some s \<Rightarrow> [(''start_time'', TextField (numToString s))]) @
         (case end of None \<Rightarrow> [] | Some e \<Rightarrow> [(''end_time'', TextField (numToString e))])))"
| "api_request numToString GetSupportedFormats = (''/api/formats/supported'', get_request)"
| "api_request numToString CleanupExpiredFiles = (''/api/cleanup-expired'', bare_request ''POST'')"
| "api_request numToString GetSegments = (''/api/segments'', get_request)"
| "api_request numToString (GetSegment sid) = (''/api/segments/'' @ sid, get_request)"
| "api_request numToString (DeleteSegment sid) = (''/api/segments/'' @ sid, bare_request ''DELETE'')"
| "api_request numToString (AnalyzeRecording sid rid) =
     (''/api/analyze'',
      json_post (JObj [(''segment_id'', JStr sid), (''recording_id'', JStr rid)]))"
| "api_request numToString (GetAnalysisSummary aid) =
     (''/api/analysis-summary/'' @ aid, get_request)"
| "api_request numToString (GetUserAttempts queryString) =
     (''/api/attempts'' @ (if queryString \<noteq> [] then ''?'' @ queryString else []), get_request)"
| "api_request numToString (GetAttemptDetails aid) = (''/api/attempts/'' @ aid, get_request)"
| "api_request numToString (DeleteAttempt aid) = (''/api/attempts/'' @ aid, bare_request ''DELETE'')"
| "api_request numToString GetUserStats = (''/api/attempts/stats/overview'', get_request)"
| "api_request numToString (GetResults aid) = (''/api/attempts/'' @ aid, get_request)"
| "api_request numToString (UploadRecording file sid) =
     (''/api/recording/upload'',
      form_post [(''file'', FileField file), (''segment_id'', TextField (numToString sid))])"
| "api_request numToString GetUserRecordings = (''/api/recording/'', get_request)"
| "api_request numToString (GetRecordingDetails rid) = (''/api/recording/'' @ rid, get_request)"
| "api_request numToString HealthCheck = (''/health'', get_request)"
| "api_request numToString GetRootInfo = (''/'', get_request)"

definition client_fetch ::
  "(real \<Rightarrow> string) \<Rightarrow> (string \<rightharpoonup> string) \<Rightarrow> api_call \<Rightarrow> fetch_call" where
  "client_fetch numToString storage c =
     apiRequest_fetch storage (fst (api_request numToString c)) (snd (api_request numToString c))"

text \<open>
  Requests of the client that do not go through \<^verbatim>\<open>apiRequest\<close>.  The Results page plays
  the segment and the recording with \<^verbatim>\<open>new Audio(getAudioUrl(path))\<close>, and the
  SelectSegment page hands \<^verbatim>\<open>`${API_BASE_URL}/files/${fileId}`\<close> to the waveform player,
  which loads it.  In both the code gives the platform a URL and nothing else, so the
  request carries no header of the client's.  \<open>encodeURIComponent\<close> is the platform's
  function, a parameter here.
\<close>

definition cleanPath :: "string \<Rightarrow> string" where
  "cleanPath filePath =
     (if startsWith filePath ''./storage/'' then drop 10 filePath
      else if startsWith filePath ''.storage/'' then drop 9 filePath
      else filePath)"

definition getAudioUrl :: "(string \<Rightarrow> string) \<Rightarrow> string \<Rightarrow> string" where
  "getAudioUrl encodeURIComponent filePath =
     API_BASE_URL @ ''/api/audio/'' @ encodeURIComponent (cleanPath filePath)"

definition media_request :: "string \<Rightarrow> fetch_call" where
  "media_request url =
     \<lparr>fetch_url = url, fetch_method = None, fetch_body = None, fetch_headers = Map.empty\<rparr>"

datatype client_request =
    ViaApiRequest api_call
  | PlayAudio string
  | LoadSegmentFile string

definition client_request_fetch ::
  "(real \<Rightarrow> string) \<Rightarrow> (string \<Rightarrow> string) \<Rightarrow> (string \<rightharpoonup> string) \<Rightarrow> client_request \<Rightarrow>
   fetch_call" where
  "client_request_fetch numToString encodeURIComponent storage req =
     (case req of
        ViaApiRequest c \<Rightarrow> client_fetch numToString storage c
      | PlayAudio filePath \<Rightarrow> media_request (getAudioUrl encodeURIComponent filePath)
      | LoadSegmentFile fileId \<Rightarrow> media_request (API_BASE_URL @ ''/files/'' @ fileId))"

section \<open>Capture device: components/AudioRecorder.tsx\<close>




















section \<open>Properties of the file intake\<close>

text \<open>
  C5 (as stated): the acceptance callback is invoked only for a file within the size ceiling
  whose declared type is an accepted audio type, and any other file is rejected with a
  user-visible message.  This fails on the code: a dropped file whose declared type is not an
  audio type is ignored without any message, and the picker hands over a file of any declared
  type.
\<close>

theorem FileUpload_type_counterexample:
  "handleDrop default_maxSize
      [\<lparr>file_name = ''notes.txt'', file_size = 10, file_type = ''text/plain''\<rparr>]
     = (False, []) \<and>
   handleFileInput default_maxSize
      (Some [\<lparr>file_name = ''notes.txt'', file_size = 10, file_type = ''text/plain''\<rparr>])
     = [OnFileSelect \<lparr>file_name = ''notes.txt'', file_size = 10, file_type = ''text/plain''\<rparr>]"
  by (simp add: handleDrop_def handleFileInput_def startsWith_def default_maxSize_def)

text \<open>
  C5 (amended): on both paths the acceptance callback is invoked only for a file whose
  declared size is at most the ceiling, and on the drop path only for a declared type that
  starts with \<^verbatim>\<open>audio/\<close>.  A file above the ceiling is never handed over; it is answered
  with the alert, on the drop path provided its declared type starts with \<^verbatim>\<open>audio/\<close>.  A
  dropped file of another declared type is ignored silently.
\<close>

theorem FileUpload_size_ceiling:
  "(OnFileSelect f \<in> set (handleFileInput maxSize fs) \<longrightarrow> file_size f \<le> maxSize) \<and>
   (OnFileSelect f \<in> set (snd (handleDrop maxSize ds)) \<longrightarrow>
      file_size f \<le> maxSize \<and> startsWith (file_type f) ''audio/'') \<and>
   (maxSize < file_size file \<longrightarrow>
      handleFileInput maxSize (Some (file # rest)) = [Alert too_large_message] \<and>
      snd (handleDrop maxSize (file # rest)) =
        (if startsWith (file_type file) ''audio/'' then [Alert too_large_message] else [])) \<and>
   (\<not> startsWith (file_type file) ''audio/'' \<longrightarrow>
      snd (handleDrop maxSize (file # rest)) = [])"
  by (auto simp: handleFileInput_def handleDrop_def
           split: option.splits list.splits if_splits)

theorem FileUpload_size_ceiling_witness:
  "handleFileInput default_maxSize
      (Some [\<lparr>file_name = ''song.wav'', file_size = 52428801, file_type = ''audio/wav''\<rparr>])
     = [Alert too_large_message] \<and>
   snd (handleDrop default_maxSize
      [\<lparr>file_name = ''song.wav'', file_size = 52428801, file_type = ''audio/wav''\<rparr>])
     = [Alert too_large_message] \<and>
   OnFileSelect \<lparr>file_name = ''a.mp3'', file_size = 52428800, file_type = ''audio/mpeg''\<rparr>
     \<in> set (snd (handleDrop default_maxSize
          [\<lparr>file_name = ''a.mp3'', file_size = 52428800, file_type = ''audio/mpeg''\<rparr>])) \<and>
   file_size \<lparr>file_name = ''a.mp3'', file_size = 52428800, file_type = ''audio/mpeg''\<rparr>
     \<le> default_maxSize"
  using FileUpload_size_ceiling
    [of "\<lparr>file_name = ''a.mp3'', file_size = 52428800, file_type = ''audio/mpeg''\<rparr>"
        default_maxSize None
        "[\<lparr>file_name = ''a.mp3'', file_size = 52428800, file_type = ''audio/mpeg''\<rparr>]"
        "\<lparr>file_name = ''song.wav'', file_size = 52428801, file_type = ''audio/wav''\<rparr>" "[]"]
  by (simp add: handleDrop_def startsWith_def default_maxSize_def)

section \<open>Properties of the waveform and region selector\<close>

lemma plugin_gesture_fixed:
  "\<not> resize r \<Longrightarrow>
     \<not> resize (plugin_gesture r g) \<and>
     region_end (plugin_gesture r g) - region_start (plugin_gesture r g)
       = region_end r - region_start r"
  by (cases g) simp_all

lemma gesture_reports_fixed:
  "\<not> resize r \<Longrightarrow> OnRegionUpdate s e \<in> set (gesture_reports cb r gs) \<Longrightarrow>
     e - s = region_end r - region_start r"
proof (induction gs arbitrary: r)
  case Nil
  then show ?case by simp
next
  case (Cons g gs)
  let ?r' = "plugin_gesture r g"
  from Cons.prems(1) have fixed: "\<not> resize ?r'"
    and len: "region_end ?r' - region_start ?r' = region_end r - region_start r"
    using plugin_gesture_fixed [of r g] by simp_all
  from Cons.prems(2) consider
      (now) "OnRegionUpdate s e \<in> set (on_region_updated cb ?r')"
    | (later) "OnRegionUpdate s e \<in> set (gesture_reports cb ?r' gs)"
    by auto
  then show ?case
  proof cases
    case now
    then show ?thesis using len by (auto simp: on_region_updated_def split: if_splits)
  next
    case later
    then show ?thesis using Cons.IH [OF fixed] len by simp
  qed
qed

text \<open>
  C6: whenever a fixed duration is requested (the prop is given and truthy, which is what the
  component tests), the region is created with resizing disabled and dragging enabled, and
  after any sequence of gestures every reported interval has the length of the seeded one.
  The gestures are those of the plugin as the spec describes them; attempts to resize are
  part of the sequences and have no effect.
\<close>

theorem fixed_duration_length_constant:
  "fixed_requested fixedDuration \<Longrightarrow>
     resize (ready_region fixedDuration duration) = False \<and>
     drag (ready_region fixedDuration duration) = True \<and>
     (\<forall>s e. OnRegionUpdate s e
               \<in> set (gesture_reports cb (ready_region fixedDuration duration) gs) \<longrightarrow>
            e - s = region_end (ready_region fixedDuration duration)
                    - region_start (ready_region fixedDuration duration))"
proof -
  assume req: "fixed_requested fixedDuration"
  then have nores: "\<not> resize (ready_region fixedDuration duration)"
    by (simp add: ready_region_def Let_def)
  have dr: "drag (ready_region fixedDuration duration)"
    by (simp add: ready_region_def Let_def)
  show ?thesis using nores dr gesture_reports_fixed [OF nores] by blast
qed

theorem fixed_duration_length_constant_witness:
  "fixed_requested (Some 30) \<and>
   resize (ready_region (Some 30) 200) = False \<and>
   gesture_reports True (ready_region (Some 30) 200) [DragBy 10, ResizeEndBy 5, DragBy (-3)]
     = [OnRegionUpdate 10 40, OnRegionUpdate 10 40, OnRegionUpdate 7 37]"
  using fixed_duration_length_constant
    [of "Some 30" 200 True "[DragBy 10, ResizeEndBy 5, DragBy (-3)]"]
  by (simp add: fixed_requested_def ready_region_def on_region_updated_def Let_def)

text \<open>
  C7 (as stated): on ready the seeded interval starts at 0 and ends at the requested fixed
  duration when one is given.  This fails for a track shorter than the fixed duration: with
  a fixed duration of 30 and a track of 20 seconds the interval seeded and reported is
  (0, 20).
\<close>

theorem ready_seed_counterexample:
  "on_ready True (Some 30) True 20 =
     [AddRegion \<lparr>region_start = 0, region_end = 20, color = ''hsla(180, 75%, 55%, 0.2)'',
                 drag = True, resize = False\<rparr>,
      OnRegionUpdate 0 20] \<and>
   region_end (ready_region (Some 30) 20) \<noteq> 30"
  by (simp add: on_ready_def ready_region_def fixed_requested_def Let_def)

text \<open>
  C7 (amended): on ready with region selection enabled the component adds one region that
  starts at 0 and ends at the smaller of the fixed duration and the track's duration when a
  fixed duration is given (and is not 0), and at min(60, duration) otherwise; when the
  \<^verbatim>\<open>onRegionUpdate\<close> callback is supplied, this pair is reported to it at once, before any
  gesture.
\<close>

theorem ready_seed:
  "on_ready True fixedDuration True duration =
     [AddRegion (ready_region fixedDuration duration),
      OnRegionUpdate 0
        (case fixedDuration of
           None \<Rightarrow> min 60 duration
         | Some d \<Rightarrow> if d \<noteq> 0 then min d duration else min 60 duration)] \<and>
   region_start (ready_region fixedDuration duration) = 0 \<and>
   region_end (ready_region fixedDuration duration) =
     (case fixedDuration of
        None \<Rightarrow> min 60 duration
      | Some d \<Rightarrow> if d \<noteq> 0 then min d duration else min 60 duration)"
  by (simp add: on_ready_def ready_region_def Let_def split: option.splits)

theorem ready_seed_witness:
  "on_ready True (Some 30) True 200 =
     [AddRegion \<lparr>region_start = 0, region_end = 30, color = ''hsla(180, 75%, 55%, 0.2)'',
                 drag = True, resize = False\<rparr>,
      OnRegionUpdate 0 30] \<and>
   on_ready True None True 200 =
     [AddRegion \<lparr>region_start = 0, region_end = 60, color = ''hsla(180, 75%, 55%, 0.2)'',
                 drag = True, resize = True\<rparr>,
      OnRegionUpdate 0 60]"
  using ready_seed [of "Some 30" 200] ready_seed [of None 200]
  by (simp add: ready_region_def fixed_requested_def Let_def)

section \<open>Properties of the home page\<close>

lemma pow2_powr: "pow2 k = 2 powr (of_int k)"
  by (simp add: pow2_def powr_int)

lemma double_exponent_eq:
  assumes "pow2 k \<le> \<bar>x\<bar>" and "\<bar>x\<bar> < pow2 (k + 1)" and "- 1022 \<le> k"
  shows "double_exponent x = k"
proof -
  have pos: "0 < \<bar>x\<bar>"
    using assms(1) by (smt (verit) pow2_powr powr_gt_zero)
  have "\<lfloor>log 2 \<bar>x\<bar>\<rfloor> = k"
    using assms(1,2) pos by (simp add: floor_log_eq_powr_iff pow2_powr)
  with assms(3) show ?thesis by (simp add: double_exponent_def)
qed

lemma round_double_eval:
  assumes "pow2 k \<le> \<bar>x\<bar>" and "\<bar>x\<bar> < pow2 (k + 1)" and "- 1022 \<le> k"
  shows "round_double x = of_int (round_half_even (x / pow2 (k - 52))) * pow2 (k - 52)"
proof -
  have "x \<noteq> 0" using assms(1) by (smt (verit) pow2_powr powr_gt_zero)
  then show ?thesis
    using double_exponent_eq [OF assms] by (simp add: round_double_def Let_def)
qed

lemma double_sub_finite:
  assumes "round_double (a - b) = r" and "\<bar>r\<bar> < 2 ^ 1024"
  shows "double_sub a b = Some r"
  using assms by (simp add: double_sub_def Let_def)

text \<open>The literal 0.1 denotes \<open>double_tenth\<close>: one tenth rounds to it.\<close>

lemma round_double_tenth: "round_double (1 / 10) = double_tenth"
  using round_double_eval [of "- 4" "1 / 10"]
  by (simp add: pow2_def round_half_even_def Let_def double_tenth_def)

lemma double_sub_15_30: "double_sub 15 30 = Some (- 15)"
proof -
  have "round_double (15 - 30) = - 15"
    using round_double_eval [of 3 "15 - 30"]
    by (simp add: pow2_def round_half_even_def Let_def)
  then show ?thesis by (rule double_sub_finite) simp
qed

lemma double_sub_same: "double_sub a a = Some 0"
  by (simp add: double_sub_def round_double_def)

lemma double_sub_38_10: "double_sub 38 10 = Some 28"
proof -
  have "round_double (38 - 10) = 28"
    using round_double_eval [of 4 "38 - 10"]
    by (simp add: pow2_def round_half_even_def Let_def)
  then show ?thesis by (rule double_sub_finite) simp
qed

lemma double_sub_28_30: "double_sub 28 30 = Some (- 2)"
proof -
  have "round_double (28 - 30) = - 2"
    using round_double_eval [of 1 "28 - 30"]
    by (simp add: pow2_def round_half_even_def Let_def)
  then show ?thesis by (rule double_sub_finite) simp
qed

lemma double_sub_40_10: "double_sub 40 10 = Some 30"
proof -
  have "round_double (40 - 10) = 30"
    using round_double_eval [of 4 "40 - 10"]
    by (simp add: pow2_def round_half_even_def Let_def)
  then show ?thesis by (rule double_sub_finite) simp
qed

text \<open>
  The spec's scenarios on the handler: with target 30 and start 10, an end of 38 is blocked
  with a message citing 28.0s and no network call, and an end of 40 is uploaded.
\<close>

lemma handleUpload_scenarios:
  "handleUpload integer_toString
     \<lparr>selectedFile = Some \<lparr>file_name = ''song.mp3'', file_size = 1000, file_type = ''audio/mpeg''\<rparr>,
      audioUrl = ''blob:1'', selectedDuration = Some 30, startTime = 10, endTime = 38,
      isUploading = False\<rparr> (Some 7)
   = (\<lparr>selectedFile = Some \<lparr>file_name = ''song.mp3'', file_size = 1000, file_type = ''audio/mpeg''\<rparr>,
      audioUrl = ''blob:1'', selectedDuration = Some 30, startTime = 10, endTime = 38,
      isUploading = False\<rparr>,
      [ToastError ''Please ensure the segment is exactly 30 seconds (current: 28.0s)'']) \<and>
   snd (handleUpload integer_toString
     \<lparr>selectedFile = Some \<lparr>file_name = ''song.mp3'', file_size = 1000, file_type = ''audio/mpeg''\<rparr>,
      audioUrl = ''blob:1'', selectedDuration = Some 30, startTime = 10, endTime = 40,
      isUploading = False\<rparr> (Some 7))
   = [ApiUploadAndProcess
        \<lparr>file_name = ''song.mp3'', file_size = 1000, file_type = ''audio/mpeg''\<rparr> 10 40,
      ToastSuccess ''Song uploaded and processed!'',
      RevokeObjectURL ''blob:1'',
      StoreCurrentSegment
        \<lparr>segmentId = 7, fileName = ''song.mp3'', info_startTime = 10, info_endTime = 40\<rparr>,
      NavigateRecord
        \<lparr>segmentId = 7, fileName = ''song.mp3'', info_startTime = 10, info_endTime = 40\<rparr>]"
  by (simp add: handleUpload_def Let_def double_sub_38_10 double_sub_28_30 double_sub_40_10
        double_sub_same abs_number_def sub_number_def le_number_def toFixed1_number_def
        double_tenth_def duration_message_def toFixed1_def integer_toString_def
        nat_to_dec.simps digit_char_def)

text \<open>
  The comparison is made on doubles.  With start the double 0.1, end 15 and target 15 the
  span rounds to the double 14.9, whose distance from 15 is below the tolerance, and the
  handler uploads.
\<close>

lemma handleUpload_rounds:
  "snd (handleUpload integer_toString
     \<lparr>selectedFile = Some \<lparr>file_name = ''song.mp3'', file_size = 1000, file_type = ''audio/mpeg''\<rparr>,
      audioUrl = ''blob:1'', selectedDuration = Some 15, startTime = double_tenth, endTime = 15,
      isUploading = False\<rparr> None)
   = [ApiUploadAndProcess
        \<lparr>file_name = ''song.mp3'', file_size = 1000, file_type = ''audio/mpeg''\<rparr> double_tenth 15,
      ToastError ''Upload failed. Please try again.'', ConsoleError]"
proof -
  have "round_double (15 - double_tenth) = 8387954305977549 / 2 ^ 49"
    using round_double_eval [of 3 "15 - double_tenth"]
    by (simp add: pow2_def round_half_even_def Let_def double_tenth_def)
  then have span: "double_sub 15 double_tenth = Some (8387954305977549 / 2 ^ 49)"
    by (rule double_sub_finite) simp
  have "round_double (8387954305977549 / 2 ^ 49 - 15) = - (56294995342131 / 2 ^ 49)"
    using round_double_eval [of "- 4" "8387954305977549 / 2 ^ 49 - 15"]
    by (simp add: pow2_def round_half_even_def Let_def)
  then have diff: "double_sub (8387954305977549 / 2 ^ 49) 15 = Some (- (56294995342131 / 2 ^ 49))"
    by (rule double_sub_finite) simp
  have ok: "le_number (abs_number (sub_number (abs_number (double_sub 15 double_tenth)) 15))
              double_tenth"
    unfolding span using diff
    by (simp add: abs_number_def sub_number_def le_number_def double_tenth_def)
  show ?thesis
    using ok by (simp add: handleUpload_def Let_def)
qed

text \<open>
  In the other direction, with start 10 + 2^-49 (the double after 10), end the double 40.1
  and target 30, the exact span is a tie between two doubles and rounds to the double 30.1,
  whose distance from 30 exceeds the tolerance: the handler blocks.
\<close>

lemma handleUpload_rounds_tie:
  "handleUpload integer_toString
     \<lparr>selectedFile = Some \<lparr>file_name = ''song.mp3'', file_size = 1000, file_type = ''audio/mpeg''\<rparr>,
      audioUrl = ''blob:1'', selectedDuration = Some 30,
      startTime = 10 + 1 / 2 ^ 49, endTime = 5643573283048653 / 2 ^ 47,
      isUploading = False\<rparr> None
   = (\<lparr>selectedFile = Some \<lparr>file_name = ''song.mp3'', file_size = 1000, file_type = ''audio/mpeg''\<rparr>,
      audioUrl = ''blob:1'', selectedDuration = Some 30,
      startTime = 10 + 1 / 2 ^ 49, endTime = 5643573283048653 / 2 ^ 47,
      isUploading = False\<rparr>,
      [ToastError ''Please ensure the segment is exactly 30 seconds (current: 30.1s)''])"
proof -
  have "round_double (5643573283048653 / 2 ^ 47 - (10 + 1 / 2 ^ 49)) = 8472396798990746 / 2 ^ 48"
    using round_double_eval [of 4 "5643573283048653 / 2 ^ 47 - (10 + 1 / 2 ^ 49)"]
    by (simp add: pow2_def round_half_even_def Let_def)
  then have span: "double_sub (5643573283048653 / 2 ^ 47) (10 + 1 / 2 ^ 49)
                     = Some (8472396798990746 / 2 ^ 48)"
    by (rule double_sub_finite) simp
  have "round_double (8472396798990746 / 2 ^ 48 - 30) = 28147497671066 / 2 ^ 48"
    using round_double_eval [of "- 4" "8472396798990746 / 2 ^ 48 - 30"]
    by (simp add: pow2_def round_half_even_def Let_def)
  then have diff: "double_sub (8472396798990746 / 2 ^ 48) 30 = Some (28147497671066 / 2 ^ 48)"
    by (rule double_sub_finite) simp
  have bad: "\<not> le_number
       (abs_number (sub_number
          (abs_number (double_sub (5643573283048653 / 2 ^ 47) (10 + 1 / 2 ^ 49))) 30))
       double_tenth"
    unfolding span using diff
    by (simp add: abs_number_def sub_number_def le_number_def double_tenth_def)
  have shown: "toFixed1_number integer_toString
       (abs_number (double_sub (5643573283048653 / 2 ^ 47) (10 + 1 / 2 ^ 49))) = ''30.1''"
    unfolding span
    by (simp add: abs_number_def toFixed1_number_def toFixed1_def nat_to_dec.simps digit_char_def)
  show ?thesis
    using bad shown
    by (simp add: handleUpload_def Let_def duration_message_def integer_toString_def
          nat_to_dec.simps digit_char_def)
qed

text \<open>
  C1: Upload and Continue must call the upload endpoint exactly when the span end - start is
  within 0.1 of the target, and must otherwise block.  The code breaks this on a reversed
  interval.  After a file is selected, 30 seconds are chosen, the region is dragged to
  (30, 60) and 15 seconds are chosen, \<^verbatim>\<open>handleDurationSelect\<close> has set the end to 15 and
  left the start at 30 (the handler of the same name on the Record page resets the start to
  0).  Until the recreated waveform reports ready the state holds start 30 and end 15; the
  span -15 is 30 away from the target 15, yet \<^verbatim>\<open>handleUpload\<close>, which compares the
  magnitude of the span, calls the endpoint with start 30 and end 15.  All the arithmetic at
  this input is exact on doubles.
\<close>

theorem upload_reversed_interval:
  "selectedFile
     (handleDurationSelect 15 (handleRegionUpdate 30 60 (handleDurationSelect 30
        (fst (handleFileSelect ''blob:1''
                \<lparr>file_name = ''song.mp3'', file_size = 1000, file_type = ''audio/mpeg''\<rparr>
                index_initial)))))
     = Some \<lparr>file_name = ''song.mp3'', file_size = 1000, file_type = ''audio/mpeg''\<rparr> \<and>
   selectedDuration
     (handleDurationSelect 15 (handleRegionUpdate 30 60 (handleDurationSelect 30
        (fst (handleFileSelect ''blob:1''
                \<lparr>file_name = ''song.mp3'', file_size = 1000, file_type = ''audio/mpeg''\<rparr>
                index_initial)))))
     = Some 15 \<and>
   startTime
     (handleDurationSelect 15 (handleRegionUpdate 30 60 (handleDurationSelect 30
        (fst (handleFileSelect ''blob:1''
                \<lparr>file_name = ''song.mp3'', file_size = 1000, file_type = ''audio/mpeg''\<rparr>
                index_initial)))))
     = 30 \<and>
   endTime
     (handleDurationSelect 15 (handleRegionUpdate 30 60 (handleDurationSelect 30
        (fst (handleFileSelect ''blob:1''
                \<lparr>file_name = ''song.mp3'', file_size = 1000, file_type = ''audio/mpeg''\<rparr>
                index_initial)))))
     = 15 \<and>
   \<not> \<bar>(15 - 30) - (15::real)\<bar> \<le> 1 / 10 \<and>
   snd (handleUpload integer_toString
     (handleDurationSelect 15 (handleRegionUpdate 30 60 (handleDurationSelect 30
        (fst (handleFileSelect ''blob:1''
                \<lparr>file_name = ''song.mp3'', file_size = 1000, file_type = ''audio/mpeg''\<rparr>
                index_initial)))))
     None)
     = [ApiUploadAndProcess
          \<lparr>file_name = ''song.mp3'', file_size = 1000, file_type = ''audio/mpeg''\<rparr> 30 15,
        ToastError ''Upload failed. Please try again.'', ConsoleError]"
  by (simp add: handleUpload_def handleDurationSelect_def handleRegionUpdate_def
        handleFileSelect_def index_initial_def Let_def double_sub_15_30 double_sub_same
        abs_number_def sub_number_def le_number_def double_tenth_def)

section \<open>Properties of the Record page\<close>

text \<open>
  C4: when the submission handler runs while the user is null, in either revision of the
  page, it makes no call of the recording-upload or analyze endpoint (it has no effect at
  all) and the only change of state is that the login dialog is shown.
\<close>

theorem unauthenticated_submit:
  "usr = None \<Longrightarrow>
     handleSubmitAnalysis usr segmentIdNum uploaded analysed st
       = (st\<lparr>showLoginDialog := True\<rparr>, []) \<and>
     handleSubmitAnalysis_v1 usr segmentIdNum uploaded analysed st1
       = (st1\<lparr>v1_showLoginDialog := True\<rparr>, []) \<and>
     (\<forall>e \<in> set (snd (handleSubmitAnalysis usr segmentIdNum uploaded analysed st)
                 @ snd (handleSubmitAnalysis_v1 usr segmentIdNum uploaded analysed st1)).
        \<not> is_network_call e)"
  by (simp add: handleSubmitAnalysis_def handleSubmitAnalysis_v1_def truthy_def)

theorem unauthenticated_submit_witness:
  "handleSubmitAnalysis None (Some 5) (Some 8) (Some 9)
     (handleRecordingComplete \<lparr>blob_data = [1, 2, 3], blob_type = ''audio/webm''\<rparr> record_initial)
   = (\<lparr>mode = RecordMode,
       recordedBlob = Some \<lparr>blob_data = [1, 2, 3], blob_type = ''audio/webm''\<rparr>,
       uploadedFile = None, rec_audioUrl = None,
       rec_selectedDuration = 30, segmentStart = 0, segmentEnd = 30,
       isAnalyzing = False, showLoginDialog = True\<rparr>, []) \<and>
   handleSubmitAnalysis_v1 None (Some 5) (Some 8) (Some 9)
     \<lparr>v1_recordedBlob = Some \<lparr>blob_data = [1, 2, 3], blob_type = ''audio/webm''\<rparr>,
      v1_isAnalyzing = False, v1_showLoginDialog = False\<rparr>
   = (\<lparr>v1_recordedBlob = Some \<lparr>blob_data = [1, 2, 3], blob_type = ''audio/webm''\<rparr>,
      v1_isAnalyzing = False, v1_showLoginDialog = True\<rparr>, [])"
  using unauthenticated_submit [of None "Some 5" "Some 8" "Some 9"
     "handleRecordingComplete \<lparr>blob_data = [1, 2, 3], blob_type = ''audio/webm''\<rparr> record_initial"
     "\<lparr>v1_recordedBlob = Some \<lparr>blob_data = [1, 2, 3], blob_type = ''audio/webm''\<rparr>,
      v1_isAnalyzing = False, v1_showLoginDialog = False\<rparr>"]
  by (simp add: handleRecordingComplete_def record_initial_def)

text \<open>
  C9 (as stated): switching the mode resets the recorded blob and the uploaded file.  Neither
  is reset: a blob recorded in record mode is still held after switching to upload mode and
  after the waveform has reported ready, and a file selected in upload mode is still held
  after switching to record mode and back, while both start as null.
\<close>

theorem mode_switch_counterexample:
  "recordedBlob record_initial = None \<and>
   recordedBlob (page_state (player_ready 200 (click_mode UploadMode
       \<lparr>page_state =
          handleRecordingComplete \<lparr>blob_data = [1, 2, 3], blob_type = ''audio/webm''\<rparr>
            record_initial,
        player_loading = False, location_state = None, localStorage = Map.empty\<rparr>)))
     = Some \<lparr>blob_data = [1, 2, 3], blob_type = ''audio/webm''\<rparr> \<and>
   uploadedFile record_initial = None \<and>
   uploadedFile (page_state (player_ready 200 (click_mode UploadMode (click_mode RecordMode
       \<lparr>page_state =
          handleFileSelect_rec ''blob:2''
            \<lparr>file_name = ''take.wav'', file_size = 2000, file_type = ''audio/wav''\<rparr>
            (setMode UploadMode record_initial),
        player_loading = False, location_state = None, localStorage = Map.empty\<rparr>))))
     = Some \<lparr>file_name = ''take.wav'', file_size = 2000, file_type = ''audio/wav''\<rparr>"
  by (simp add: click_mode_def player_ready_def setMode_def handleRecordingComplete_def
        handleFileSelect_rec_def record_initial_def upload_player_rendered_def on_ready_def
        ready_region_def fixed_requested_def handleRegionUpdate_rec_def Let_def)

lemma report_ready:
  "report_regions (on_ready True (Some sel) True d) st =
     st\<lparr>segmentStart := 0,
        segmentEnd := (if sel \<noteq> 0 then min sel d else min 60 d)\<rparr>"
  by (simp add: on_ready_def ready_region_def handleRegionUpdate_rec_def Let_def)

text \<open>
  C9 (amended): switching between record and upload mode does not reset the recorded blob
  or the uploaded file, nor the file's object URL and chosen duration, and it preserves the
  active segment (segmentId, fileName, startTime, endTime), which is computed from the router
  state and local storage.  The click itself changes the mode and nothing else of the state.
  The region selection is reset only on entering upload mode with a file held: the
  waveform is mounted anew, and when it reports ready the selection becomes the seeded
  interval, from 0 to the smaller of the chosen duration and the track's duration.  A click
  that mounts no player leaves the region selection as it is.
\<close>

theorem mode_switch_frame:
  "mode (page_state (click_mode m page)) = m \<and>
   recordedBlob (page_state (click_mode m page)) = recordedBlob (page_state page) \<and>
   uploadedFile (page_state (click_mode m page)) = uploadedFile (page_state page) \<and>
   rec_audioUrl (page_state (click_mode m page)) = rec_audioUrl (page_state page) \<and>
   rec_selectedDuration (page_state (click_mode m page)) = rec_selectedDuration (page_state page) \<and>
   segmentStart (page_state (click_mode m page)) = segmentStart (page_state page) \<and>
   segmentEnd (page_state (click_mode m page)) = segmentEnd (page_state page) \<and>
   isAnalyzing (page_state (click_mode m page)) = isAnalyzing (page_state page) \<and>
   showLoginDialog (page_state (click_mode m page)) = showLoginDialog (page_state page) \<and>
   page_segment JSON_parse (click_mode m page) = page_segment JSON_parse page \<and>
   mode (page_state (player_ready d (click_mode m page))) = m \<and>
   recordedBlob (page_state (player_ready d (click_mode m page))) = recordedBlob (page_state page) \<and>
   uploadedFile (page_state (player_ready d (click_mode m page))) = uploadedFile (page_state page) \<and>
   rec_audioUrl (page_state (player_ready d (click_mode m page))) = rec_audioUrl (page_state page) \<and>
   rec_selectedDuration (page_state (player_ready d (click_mode m page)))
     = rec_selectedDuration (page_state page) \<and>
   page_segment JSON_parse (player_ready d (click_mode m page)) = page_segment JSON_parse page \<and>
   (mode (page_state page) \<noteq> m \<and> upload_player_rendered (setMode m (page_state page)) \<longrightarrow>
      segmentStart (page_state (player_ready d (click_mode m page))) = 0 \<and>
      segmentEnd (page_state (player_ready d (click_mode m page))) =
        (if rec_selectedDuration (page_state page) \<noteq> 0
         then min (rec_selectedDuration (page_state page)) d else min 60 d)) \<and>
   (\<not> player_loading (click_mode m page) \<longrightarrow>
      player_ready d (click_mode m page) = click_mode m page)"
  by (simp add: click_mode_def player_ready_def setMode_def page_segment_def report_ready)

theorem mode_switch_frame_witness:
  "page_state (player_ready 200 (click_mode UploadMode
      \<lparr>page_state =
         \<lparr>mode = RecordMode,
          recordedBlob = Some \<lparr>blob_data = [1, 2, 3], blob_type = ''audio/webm''\<rparr>,
          uploadedFile =
            Some \<lparr>file_name = ''take.wav'', file_size = 2000, file_type = ''audio/wav''\<rparr>,
          rec_audioUrl = Some ''blob:2'', rec_selectedDuration = 30,
          segmentStart = 20, segmentEnd = 50,
          isAnalyzing = False, showLoginDialog = False\<rparr>,
       player_loading = False,
       location_state = Some (JObj [(''segmentId'', JNum 5), (''fileName'', JStr ''song.mp3''),
                                    (''startTime'', JNum 10), (''endTime'', JNum 40)]),
       localStorage = Map.empty\<rparr>))
   = \<lparr>mode = UploadMode,
      recordedBlob = Some \<lparr>blob_data = [1, 2, 3], blob_type = ''audio/webm''\<rparr>,
      uploadedFile =
        Some \<lparr>file_name = ''take.wav'', file_size = 2000, file_type = ''audio/wav''\<rparr>,
      rec_audioUrl = Some ''blob:2'', rec_selectedDuration = 30,
      segmentStart = 0, segmentEnd = 30,
      isAnalyzing = False, showLoginDialog = False\<rparr> \<and>
   page_segment (\<lambda>s. None) (player_ready 200 (click_mode UploadMode
      \<lparr>page_state =
         \<lparr>mode = RecordMode,
          recordedBlob = Some \<lparr>blob_data = [1, 2, 3], blob_type = ''audio/webm''\<rparr>,
          uploadedFile =
            Some \<lparr>file_name = ''take.wav'', file_size = 2000, file_type = ''audio/wav''\<rparr>,
          rec_audioUrl = Some ''blob:2'', rec_selectedDuration = 30,
          segmentStart = 20, segmentEnd = 50,
          isAnalyzing = False, showLoginDialog = False\<rparr>,
       player_loading = False,
       location_state = Some (JObj [(''segmentId'', JNum 5), (''fileName'', JStr ''song.mp3''),
                                    (''startTime'', JNum 10), (''endTime'', JNum 40)]),
       localStorage = Map.empty\<rparr>))
   = Inr (Some (JNum 5), Some (JStr ''song.mp3''), Some (JNum 10), Some (JNum 40))"
  using mode_switch_frame [of UploadMode
      "\<lparr>page_state =
         \<lparr>mode = RecordMode,
          recordedBlob = Some \<lparr>blob_data = [1, 2, 3], blob_type = ''audio/webm''\<rparr>,
          uploadedFile =
            Some \<lparr>file_name = ''take.wav'', file_size = 2000, file_type = ''audio/wav''\<rparr>,
          rec_audioUrl = Some ''blob:2'', rec_selectedDuration = 30,
          segmentStart = 20, segmentEnd = 50,
          isAnalyzing = False, showLoginDialog = False\<rparr>,
       player_loading = False,
       location_state = Some (JObj [(''segmentId'', JNum 5), (''fileName'', JStr ''song.mp3''),
                                    (''startTime'', JNum 10), (''endTime'', JNum 40)]),
       localStorage = Map.empty\<rparr>" "\<lambda>s. None" 200]
  by (simp add: page_segment_def getSegmentInfo_def segment_identity_def truthy_def
        upload_player_rendered_def setMode_def click_mode_def player_ready_def report_ready)

section \<open>Properties of the session store\<close>

text \<open>
  C3: at startup, when local storage holds a token and a user entry (both truthy, which is
  what the provider tests) and the user entry parses, the session is restored: the user is
  the parsed value, the token the stored one, local storage is untouched and no network
  call is made.  When the user entry does not parse, both entries are removed from local
  storage and the session is unauthenticated (user and token null); the only effect is the
  log entry, and the function returns normally.
\<close>

theorem rehydrate_session:
  assumes "storage ''token'' = Some t" and "t \<noteq> []"
    and "storage ''user'' = Some u" and "u \<noteq> []"
  shows "(JSON_parse u = Some v \<longrightarrow>
            rehydrate JSON_parse storage auth_initial =
              (\<lparr>auth_user = nullable v, auth_token = Some t, isLoading = False\<rparr>, storage, [])) \<and>
         (JSON_parse u = None \<longrightarrow>
            rehydrate JSON_parse storage auth_initial =
              (\<lparr>auth_user = None, auth_token = None, isLoading = False\<rparr>,
               storage(''user'' := None, ''token'' := None), [ConsoleError]) \<and>
            (storage(''user'' := None, ''token'' := None)) ''token'' = None \<and>
            (storage(''user'' := None, ''token'' := None)) ''user'' = None) \<and>
         (\<forall>e \<in> set (snd (snd (rehydrate JSON_parse storage auth_initial))). \<not> is_network_call e)"
  using assms
  by (cases "JSON_parse u") (simp_all add: rehydrate_def auth_initial_def Let_def)

theorem rehydrate_session_witness:
  "rehydrate (\<lambda>s. if s = ''{}'' then Some (JObj []) else None)
     [''token'' \<mapsto> ''abc'', ''user'' \<mapsto> ''{}''] auth_initial
   = (\<lparr>auth_user = Some (JObj []), auth_token = Some ''abc'', isLoading = False\<rparr>,
      [''token'' \<mapsto> ''abc'', ''user'' \<mapsto> ''{}''], []) \<and>
   fst (rehydrate (\<lambda>s. if s = ''{}'' then Some (JObj []) else None)
     [''token'' \<mapsto> ''abc'', ''user'' \<mapsto> ''{oops''] auth_initial)
   = \<lparr>auth_user = None, auth_token = None, isLoading = False\<rparr> \<and>
   fst (snd (rehydrate (\<lambda>s. if s = ''{}'' then Some (JObj []) else None)
     [''token'' \<mapsto> ''abc'', ''user'' \<mapsto> ''{oops''] auth_initial)) ''token'' = None \<and>
   fst (snd (rehydrate (\<lambda>s. if s = ''{}'' then Some (JObj []) else None)
     [''token'' \<mapsto> ''abc'', ''user'' \<mapsto> ''{oops''] auth_initial)) ''user'' = None"
proof -
  have a: "[''token'' \<mapsto> ''abc'', ''user'' \<mapsto> ''{}''] ''token'' = Some ''abc''"
    and b: "[''token'' \<mapsto> ''abc'', ''user'' \<mapsto> ''{}''] ''user'' = Some ''{}''"
    and c: "[''token'' \<mapsto> ''abc'', ''user'' \<mapsto> ''{oops''] ''token'' = Some ''abc''"
    and d: "[''token'' \<mapsto> ''abc'', ''user'' \<mapsto> ''{oops''] ''user'' = Some ''{oops''"
    by simp_all
  have ne: "''abc'' \<noteq> []" "''{}'' \<noteq> []" "''{oops'' \<noteq> []" by simp_all
  note good = rehydrate_session [OF a ne(1) b ne(2),
      of "\<lambda>s. if s = ''{}'' then Some (JObj []) else None" "JObj []"]
  note bad = rehydrate_session [OF c ne(1) d ne(3),
      of "\<lambda>s. if s = ''{}'' then Some (JObj []) else None" "JObj []"]
  have p1: "(if ''{}'' = ''{}'' then Some (JObj []) else None) = Some (JObj [])" by simp
  have p2: "(if ''{oops'' = ''{}'' then Some (JObj []) else None) = None" by simp
  from good p1 have g: "rehydrate (\<lambda>s. if s = ''{}'' then Some (JObj []) else None)
     [''token'' \<mapsto> ''abc'', ''user'' \<mapsto> ''{}''] auth_initial
   = (\<lparr>auth_user = nullable (JObj []), auth_token = Some ''abc'', isLoading = False\<rparr>,
      [''token'' \<mapsto> ''abc'', ''user'' \<mapsto> ''{}''], [])"
    by blast
  from bad p2 have b': "rehydrate (\<lambda>s. if s = ''{}'' then Some (JObj []) else None)
     [''token'' \<mapsto> ''abc'', ''user'' \<mapsto> ''{oops''] auth_initial =
       (\<lparr>auth_user = None, auth_token = None, isLoading = False\<rparr>,
        [''token'' \<mapsto> ''abc'', ''user'' \<mapsto> ''{oops''](''user'' := None, ''token'' := None),
        [ConsoleError])"
    by blast
  show ?thesis
    unfolding g b' by (simp add: nullable_def)
qed

section \<open>Properties of the API gateway client\<close>





text \<open>
  C10 (as stated): every network call of the client goes through \<^verbatim>\<open>apiRequest\<close> and so
  carries an Authorization header.  The client also asks the backend for audio without
  \<^verbatim>\<open>apiRequest\<close>: the Results page plays \<^verbatim>\<open>/api/audio/...\<close> through an \<^verbatim>\<open>Audio\<close>
  element and the SelectSegment page loads \<^verbatim>\<open>/files/...\<close> into the waveform player.
  Those requests carry no Authorization header, whether or not a token is stored.
\<close>

theorem client_call_counterexample:
  "fetch_url (client_request_fetch integer_toString (\<lambda>s. s) [''token'' \<mapsto> ''abc'']
       (PlayAudio ''./storage/a.wav''))
     = ''https://music-analyser-backend.onrender.com/api/audio/a.wav'' \<and>
   fetch_headers (client_request_fetch integer_toString (\<lambda>s. s) [''token'' \<mapsto> ''abc'']
       (PlayAudio ''./storage/a.wav'')) ''Authorization'' = None \<and>
   fetch_url (client_request_fetch integer_toString (\<lambda>s. s) [''token'' \<mapsto> ''abc'']
       (LoadSegmentFile ''42''))
     = ''https://music-analyser-backend.onrender.com/files/42'' \<and>
   fetch_headers (client_request_fetch integer_toString (\<lambda>s. s) [''token'' \<mapsto> ''abc'']
       (LoadSegmentFile ''42'')) ''Authorization'' = None"
  by (simp add: client_request_fetch_def media_request_def getAudioUrl_def cleanPath_def
        startsWith_def API_BASE_URL_def)

text \<open>
  C10 (amended): every call of \<^verbatim>\<open>fetch\<close> that \<^verbatim>\<open>apiRequest\<close> makes carries an
  Authorization header, whatever the options.  Unless the caller's own headers name
  Authorization, its value is \<^verbatim>\<open>Bearer\<close>, a space and the stored token, and that is so for
  every endpoint wrapper the client exports; when local storage has no token entry the
  value is the literal \<^verbatim>\<open>Bearer null\<close>.  The requests for audio that the client makes
  without \<^verbatim>\<open>apiRequest\<close> carry no Authorization header.
\<close>

theorem authorization_header:
  "fetch_headers (apiRequest_fetch storage endpoint options) ''Authorization'' \<noteq> None \<and>
   ((case req_headers options of None \<Rightarrow> None | Some h \<Rightarrow> h ''Authorization'') = None \<longrightarrow>
      fetch_headers (apiRequest_fetch storage endpoint options) ''Authorization''
        = Some (bearer (storage ''token''))) \<and>
   fetch_headers (client_fetch numToString storage c) ''Authorization''
     = Some (bearer (storage ''token'')) \<and>
   (storage ''token'' = None \<longrightarrow> bearer (storage ''token'') = ''Bearer null'') \<and>
   fetch_headers (client_request_fetch numToString encodeURIComponent storage (PlayAudio filePath))
     ''Authorization'' = None \<and>
   fetch_headers (client_request_fetch numToString encodeURIComponent storage (LoadSegmentFile fileId))
     ''Authorization'' = None"
proof -
  have a: "fetch_headers (apiRequest_fetch storage endpoint options) ''Authorization'' \<noteq> None"
    by (cases "req_headers options")
       (auto simp: apiRequest_fetch_def Let_def map_add_def split: option.splits)
  have b: "fetch_headers (apiRequest_fetch storage endpoint options) ''Authorization''
             = Some (bearer (storage ''token''))"
    if "(case req_headers options of None \<Rightarrow> None | Some h \<Rightarrow> h ''Authorization'') = None"
    using that
    by (cases "req_headers options")
       (auto simp: apiRequest_fetch_def Let_def map_add_def split: option.splits)
  have c: "fetch_headers (client_fetch numToString storage c) ''Authorization''
             = Some (bearer (storage ''token''))"
    by (cases c)
       (simp_all add: client_fetch_def apiRequest_fetch_def Let_def map_add_def
          get_request_def json_post_def form_post_def bare_request_def)
  have d: "bearer (storage ''token'') = ''Bearer null''" if "storage ''token'' = None"
    using that by (simp add: bearer_def)
  have e: "fetch_headers
             (client_request_fetch numToString encodeURIComponent storage (PlayAudio filePath))
             ''Authorization'' = None"
    "fetch_headers
       (client_request_fetch numToString encodeURIComponent storage (LoadSegmentFile fileId))
       ''Authorization'' = None"
    by (simp_all add: client_request_fetch_def media_request_def)
  show ?thesis using a b c d e by blast
qed

theorem authorization_header_witness:
  "fetch_headers (client_fetch integer_toString Map.empty GetSegments) ''Authorization''
     = Some ''Bearer null'' \<and>
   fetch_headers (client_fetch integer_toString [''token'' \<mapsto> ''abc''] (Login ''a@b.c'' ''pw''))
       ''Authorization''
     = Some ''Bearer abc'' \<and>
   fetch_headers (apiRequest_fetch Map.empty ''/api/segments'' get_request) ''Authorization''
     = Some ''Bearer null''"
  using authorization_header [of Map.empty "''/api/segments''" get_request integer_toString GetSegments]
    authorization_header [of "[''token'' \<mapsto> ''abc'']" "''/api/segments''" get_request
       integer_toString "Login ''a@b.c'' ''pw''"]
  by (simp add: bearer_def get_request_def)

section \<open>Properties of the capture device\<close>







end
